theory Spec2Isabelle
  imports Complex_Main
begin

section \<open>The SolPay402 backend (README.md): facilitator and payment middleware\<close>

text \<open>
  Public keys are compared through their base58 text, so they are strings. Of a decoded
  Solana transaction the facilitator reads only the instructions, and of an instruction
  its program id and the public keys of its accounts.
\<close>

type_synonym pubkey = string

record instruction =
  programId :: pubkey
  keys :: "pubkey list"

record transaction =
  instructions :: "instruction list"

text \<open>The interfaces of \<open>src/types.ts\<close>. Field names carry a prefix where two interfaces
  share them. Amounts are JavaScript numbers (0.01 USDC): finite decimals, only copied
  and compared, modelled as rationals. Times are milliseconds since the epoch.\<close>

record PaymentRequest =
  pr_amount :: rat
  pr_token :: string
  pr_recipient :: string
  pr_paymentId :: string
  pr_expiresAt :: nat
  pr_description :: string

record X402PaymentHeader =
  h_version :: string
  h_paymentId :: string
  h_amount :: rat
  h_token :: string
  h_recipient :: string
  h_transaction :: string
  h_signature :: string

record PaymentTransaction =
  pt_signature :: string
  pt_amount :: rat
  pt_token :: string
  pt_recipient :: string
  pt_blockTime :: nat

record PaymentStatus =
  success :: bool
  ps_transaction :: "PaymentTransaction option"
  error :: "string option"
  ps_paymentId :: string

text \<open>
  What lies outside the repository is a parameter: the web3.js decoder of a base64
  transaction (\<open>None\<close> when it throws), the RPC node's \<open>sendRawTransaction\<close> (the text
  of the error it throws, or the signature) and \<open>confirmTransaction\<close> (the message of
  the error it throws, for one when the confirmation times out, or the \<open>value.err\<close> of
  the result it resolves with, \<open>None\<close> being \<open>null\<close>), and \<open>JSON.parse\<close> on the X-PAYMENT
  header read as an \<open>X402PaymentHeader\<close> (\<open>None\<close> when it throws).
\<close>

record ledger =
  Transaction_from :: "string \<Rightarrow> transaction option"
  sendRawTransaction :: "transaction \<Rightarrow> string + string"
  confirmTransaction :: "string \<Rightarrow> string + string option"
  JSON_parse_header :: "string \<Rightarrow> X402PaymentHeader option"

definition TOKEN_PROGRAM_ID :: pubkey where
  "TOKEN_PROGRAM_ID = ''TokenkegQfeZyiNwAJbNbGKPFXCWuBvf9Ss623VQ5DA''"

text \<open>The calls a request makes, in order: the verification with its verdict, the
  submission to the ledger, the wait for confirmation.\<close>

datatype event = VerifyCalled bool | SendCalled | ConfirmCalled

text \<open>\<open>verifyTransaction\<close>: some instruction of the token program names the header's
  recipient among its accounts. The amount and replay checks are comments in the source.\<close>

definition verifyTransaction :: "transaction \<Rightarrow> X402PaymentHeader \<Rightarrow> bool" where
  "verifyTransaction tx header =
     list_ex (\<lambda>ix. programId ix = TOKEN_PROGRAM_ID
                  \<and> list_ex (\<lambda>key. key = h_recipient header) (keys ix))
       (instructions tx)"

definition failed :: "X402PaymentHeader \<Rightarrow> string \<Rightarrow> PaymentStatus" where
  "failed header msg =
     \<lparr>success = False, ps_transaction = None, error = Some msg,
      ps_paymentId = h_paymentId header\<rparr>"

definition settled :: "X402PaymentHeader \<Rightarrow> string \<Rightarrow> nat \<Rightarrow> PaymentStatus" where
  "settled header sig now =
     \<lparr>success = True,
      ps_transaction = Some \<lparr>pt_signature = sig, pt_amount = h_amount header,
        pt_token = h_token header, pt_recipient = h_recipient header, pt_blockTime = now\<rparr>,
      error = None, ps_paymentId = h_paymentId header\<rparr>"

text \<open>The utilities of \<open>src/utils.ts\<close>: each catches what the library throws and throws
  its own message (\<open>Inl\<close>).\<close>

definition parsePaymentHeader :: "ledger \<Rightarrow> string \<Rightarrow> string + X402PaymentHeader" where
  "parsePaymentHeader led headerString =
     (case JSON_parse_header led headerString of
        None \<Rightarrow> Inl ''Invalid payment header format''
      | Some parsed \<Rightarrow> Inr parsed)"

definition decodeTransaction :: "ledger \<Rightarrow> string \<Rightarrow> string + transaction" where
  "decodeTransaction led transactionString =
     (case Transaction_from led transactionString of
        None \<Rightarrow> Inl ''Invalid transaction encoding''
      | Some tx \<Rightarrow> Inr tx)"

definition sendTransaction :: "ledger \<Rightarrow> transaction \<Rightarrow> string + string" where
  "sendTransaction led tx =
     (case sendRawTransaction led tx of
        Inl e \<Rightarrow> Inl (''Transaction sending failed: '' @ e)
      | Inr sig \<Rightarrow> Inr sig)"

text \<open>\<open>PaymentFacilitator.verifyAndSettlePayment\<close>, with the calls it made. Every throw
  inside is caught by its own \<open>try\<close> and turned into a failed status carrying the
  message; the result of the awaited confirmation is not read; \<open>now\<close> is the reading of
  \<open>Date.now()\<close>. The facilitator holds a connection and a key pair and nothing else: no
  call leaves anything behind for the next one.\<close>

definition verifyAndSettlePayment ::
  "ledger \<Rightarrow> nat \<Rightarrow> X402PaymentHeader \<Rightarrow> PaymentStatus \<times> event list" where
  "verifyAndSettlePayment led now header =
     (case decodeTransaction led (h_transaction header) of
        Inl msg \<Rightarrow> (failed header msg, [])
      | Inr tx \<Rightarrow>
          if \<not> verifyTransaction tx header
          then (failed header ''Invalid transaction'', [VerifyCalled False])
          else (case sendTransaction led tx of
                  Inl msg \<Rightarrow> (failed header msg, [VerifyCalled True, SendCalled])
                | Inr sig \<Rightarrow>
                    (case confirmTransaction led sig of
                       Inl msg \<Rightarrow> (failed header msg,
                                   [VerifyCalled True, SendCalled, ConfirmCalled])
                     | Inr result \<Rightarrow> (settled header sig now,
                                      [VerifyCalled True, SendCalled, ConfirmCalled]))))"

text \<open>\<open>Number.prototype.toString\<close> on a non-negative integer: its decimal digits.\<close>

definition decimal_digits :: string where
  "decimal_digits = ''0123456789''"

fun Number_toString :: "nat \<Rightarrow> string" where
  "Number_toString n =
     (if n < 10 then [decimal_digits ! n]
      else Number_toString (n div 10) @ [decimal_digits ! (n mod 10)])"

text \<open>\<open>src/config.ts\<close>; the merchant account comes from the environment.\<close>

record config =
  merchantAccount :: pubkey
  defaultPaymentAmount :: rat
  defaultToken :: string
  paymentExpiryMs :: nat

definition config_of :: "pubkey \<Rightarrow> config" where
  "config_of merchant =
     \<lparr>merchantAccount = merchant, defaultPaymentAmount = 1 / 100,
      defaultToken = ''USDC'', paymentExpiryMs = 5 * 60 * 1000\<rparr>"

text \<open>Of a request the middleware reads the X-PAYMENT header and the three fields a
  route may have set before it (\<open>None\<close> is \<open>undefined\<close>).\<close>

record request =
  x_payment :: "string option"
  paymentAmount :: "rat option"
  paymentToken :: "string option"
  paymentDescription :: "string option"

text \<open>\<open>req.headers['x-payment']\<close> as the middleware tests it: an empty header is
  falsy and counts as none.\<close>

definition payment_header :: "request \<Rightarrow> string option" where
  "payment_header req =
     (case x_payment req of None \<Rightarrow> None | Some h \<Rightarrow> if h = [] then None else Some h)"

text \<open>\<open>x || d\<close>: the default replaces \<open>undefined\<close> and the falsy values \<open>0\<close> and \<open>''\<close>.\<close>

definition or_default :: "'a option \<Rightarrow> 'a \<Rightarrow> 'a \<Rightarrow> 'a" where
  "or_default x falsy d = (case x of None \<Rightarrow> d | Some v \<Rightarrow> if v = falsy then d else v)"

text \<open>The 402 challenge of a request without payment header, issued at \<open>now\<close>: the
  two readings of \<open>Date.now()\<close> in it are taken within the same millisecond.\<close>

definition challenge :: "config \<Rightarrow> nat \<Rightarrow> request \<Rightarrow> PaymentRequest" where
  "challenge cfg now req =
     \<lparr>pr_amount = or_default (paymentAmount req) 0 (defaultPaymentAmount cfg),
      pr_token = or_default (paymentToken req) [] (defaultToken cfg),
      pr_recipient = merchantAccount cfg,
      pr_paymentId = Number_toString now,
      pr_expiresAt = now + paymentExpiryMs cfg,
      pr_description = or_default (paymentDescription req) [] ''Payment for service''\<rparr>"

text \<open>What the middleware answers: status 402 with the challenge in X-PAYMENT-REQUEST;
  status 402 with a failed X-PAYMENT-RESPONSE (error and the header's payment id);
  status 400; or \<open>next()\<close> with the settled transaction attached to the request.\<close>

datatype response =
    PaymentRequired PaymentRequest
  | VerificationFailed "string option" string
  | InvalidPaymentHeader
  | Next "PaymentTransaction option"

definition paymentRequiredMiddleware ::
  "config \<Rightarrow> ledger \<Rightarrow> nat \<Rightarrow> request \<Rightarrow> response \<times> event list" where
  "paymentRequiredMiddleware cfg led now req =
     (case payment_header req of
        None \<Rightarrow> (PaymentRequired (challenge cfg now req), [])
      | Some paymentHeader \<Rightarrow>
          (case parsePaymentHeader led paymentHeader of
             Inl msg \<Rightarrow> (InvalidPaymentHeader, [])
           | Inr parsed \<Rightarrow>
               (case verifyAndSettlePayment led now parsed of
                  (paymentStatus, calls) \<Rightarrow>
                    if success paymentStatus
                    then (Next (ps_transaction paymentStatus), calls)
                    else (VerificationFailed (error paymentStatus) (h_paymentId parsed),
                          calls))))"

text \<open>A server handles timed requests one after the other; the clock reading of each
  is part of the input.\<close>

fun serve :: "config \<Rightarrow> ledger \<Rightarrow> (nat \<times> request) list \<Rightarrow> response list" where
  "serve cfg led [] = []"
| "serve cfg led ((now, req) # rest) =
     fst (paymentRequiredMiddleware cfg led now req) # serve cfg led rest"

text \<open>The payment ids of the challenges among the responses, in order of issue.\<close>

fun issued_ids :: "response list \<Rightarrow> string list" where
  "issued_ids [] = []"
| "issued_ids (PaymentRequired pr # rs) = pr_paymentId pr # issued_ids rs"
| "issued_ids (r # rs) = issued_ids rs"

text \<open>Whether a response lets the request through to the protected route.\<close>

fun granted :: "response \<Rightarrow> bool" where
  "granted (Next t) = True"
| "granted r = False"

text \<open>A concrete setting for the examples: a merchant, a ledger that decodes one
  transaction text into a token transfer naming the merchant, another into a transfer
  of the system program, and accepts and confirms whatever is sent; and four requests:
  without payment header, with a header whose transaction is the token transfer, with
  one whose transaction is the system transfer, and with one whose transaction does
  not decode.\<close>

definition shop :: config where
  "shop = config_of ''MERCHANT''"

definition token_transfer :: transaction where
  "token_transfer =
     \<lparr>instructions = [\<lparr>programId = TOKEN_PROGRAM_ID, keys = [''PAYER'', ''MERCHANT'']\<rparr>]\<rparr>"

definition system_transfer :: transaction where
  "system_transfer =
     \<lparr>instructions = [\<lparr>programId = ''11111111111111111111111111111111'',
                        keys = [''PAYER'', ''MERCHANT'']\<rparr>]\<rparr>"

definition header_for :: "string \<Rightarrow> string \<Rightarrow> X402PaymentHeader" where
  "header_for pid tx =
     \<lparr>h_version = ''1.0'', h_paymentId = pid, h_amount = 1 / 100, h_token = ''USDC'',
      h_recipient = ''MERCHANT'', h_transaction = tx, h_signature = ''c2ln''\<rparr>"

definition accepting_ledger :: ledger where
  "accepting_ledger =
     \<lparr>Transaction_from =
        (\<lambda>s. if s = ''dHJhbnNmZXI='' then Some token_transfer
             else if s = ''c3lzdGVt'' then Some system_transfer
             else None),
      sendRawTransaction = (\<lambda>tx. Inr ''5Xj8''),
      confirmTransaction = (\<lambda>sig. Inr None),
      JSON_parse_header =
        (\<lambda>s. if s = ''paid'' then Some (header_for ''1000'' ''dHJhbnNmZXI='')
             else if s = ''native'' then Some (header_for ''1000'' ''c3lzdGVt'')
             else if s = ''garbled'' then Some (header_for ''1700000000000'' ''????'')
             else None)\<rparr>"

definition unpaid :: request where
  "unpaid = \<lparr>x_payment = None, paymentAmount = None, paymentToken = None,
             paymentDescription = None\<rparr>"

definition paid :: request where
  "paid = unpaid\<lparr>x_payment := Some ''paid''\<rparr>"

definition native :: request where
  "native = unpaid\<lparr>x_payment := Some ''native''\<rparr>"

definition garbled :: request where
  "garbled = unpaid\<lparr>x_payment := Some ''garbled''\<rparr>"




definition timing_out_ledger :: ledger where
  "timing_out_ledger =
     accepting_ledger
       \<lparr>confirmTransaction :=
          (\<lambda>sig. Inl ''Transaction was not confirmed in 30.00 seconds'')\<rparr>"

definition refusing_ledger :: ledger where
  "refusing_ledger =
     accepting_ledger
       \<lparr>sendRawTransaction := (\<lambda>tx. Inl ''Error: Blockhash not found'')\<rparr>"

definition failing_on_chain_ledger :: ledger where
  "failing_on_chain_ledger =
     accepting_ledger
       \<lparr>confirmTransaction := (\<lambda>sig. Inr (Some ''InsufficientFundsForFee''))\<rparr>"

section \<open>The X-PAYMENT header codec and the /verify endpoint of the facilitator\<close>

text \<open>
  The client builds the header as
  \<open>Buffer.from(JSON.stringify(paymentPayload)).toString('base64')\<close> and the endpoint reads
  it back with \<open>JSON.parse(Buffer.from(paymentHeader, 'base64').toString('utf8'))\<close>.
  A payload is whatever JSON value the client built.
\<close>

datatype json =
    JNull
  | JBool bool
  | JNumber int
  | JString string
  | JArray "json list"
  | JObject "(string \<times> json) list"

text \<open>The four Node.js built-ins are parameters of the model. \<open>JSON.parse\<close> throws a
  SyntaxError on text that is not JSON (\<open>None\<close>); the other three always return.\<close>

record builtins =
  JSON_stringify :: "json \<Rightarrow> string"
  JSON_parse :: "string \<Rightarrow> json option"
  toString_base64 :: "string \<Rightarrow> string"
  from_base64 :: "string \<Rightarrow> string"

datatype SyntaxError = SyntaxError


definition decodePaymentHeader :: "builtins \<Rightarrow> string \<Rightarrow> SyntaxError + json" where
  "decodePaymentHeader lib paymentHeader =
     (case JSON_parse lib (from_base64 lib paymentHeader) of
        None \<Rightarrow> Inl SyntaxError
      | Some paymentPayload \<Rightarrow> Inr paymentPayload)"

text \<open>
  \<open>app.post('/verify', ...)\<close>. \<open>verifySolanaPayment\<close> is called and not defined in the
  repository: it is a parameter, read through the truthiness of what it returns. A
  SyntaxError of the decoding escapes the handler before anything is verified.
\<close>

record verify_response =
  isValid :: bool
  invalidReason :: "string option"

definition verify_endpoint ::
  "builtins \<Rightarrow> (json \<Rightarrow> json \<Rightarrow> bool) \<Rightarrow> string \<Rightarrow> json \<Rightarrow> SyntaxError + verify_response" where
  "verify_endpoint lib verifySolanaPayment paymentHeader paymentRequirements =
     (case decodePaymentHeader lib paymentHeader of
        Inl e \<Rightarrow> Inl e
      | Inr paymentPayload \<Rightarrow>
          (let valid = verifySolanaPayment paymentPayload paymentRequirements
           in Inr \<lparr>isValid = valid,
                   invalidReason = (if valid then None else Some ''Verification Failed'')\<rparr>))"

subsection \<open>A reference implementation of the built-ins\<close>

text \<open>
  For concrete runs: standard padded base64, and JSON without whitespace whose strings
  need no escaping and whose numbers are integers. Characters are bytes.
\<close>

definition b64_alphabet :: string where
  "b64_alphabet = ''ABCDEFGHIJKLMNOPQRSTUVWXYZabcdefghijklmnopqrstuvwxyz0123456789+/''"

fun b64_encode :: "nat list \<Rightarrow> string" where
  "b64_encode (a # b # c # rest) =
     [b64_alphabet ! (a div 4), b64_alphabet ! ((a mod 4) * 16 + b div 16),
      b64_alphabet ! ((b mod 16) * 4 + c div 64), b64_alphabet ! (c mod 64)]
     @ b64_encode rest"
| "b64_encode [a, b] =
     [b64_alphabet ! (a div 4), b64_alphabet ! ((a mod 4) * 16 + b div 16),
      b64_alphabet ! ((b mod 16) * 4), CHR ''='']"
| "b64_encode [a] =
     [b64_alphabet ! (a div 4), b64_alphabet ! ((a mod 4) * 16), CHR ''='', CHR ''='']"
| "b64_encode [] = []"

text \<open>The value of a base64 character, and of a decimal digit.\<close>

definition b64_value :: "char \<Rightarrow> nat option" where
  "b64_value = map_of
    [(CHR ''A'', 0), (CHR ''B'', 1), (CHR ''C'', 2), (CHR ''D'', 3), (CHR ''E'', 4),
     (CHR ''F'', 5), (CHR ''G'', 6), (CHR ''H'', 7), (CHR ''I'', 8), (CHR ''J'', 9),
     (CHR ''K'', 10), (CHR ''L'', 11), (CHR ''M'', 12), (CHR ''N'', 13), (CHR ''O'', 14),
     (CHR ''P'', 15), (CHR ''Q'', 16), (CHR ''R'', 17), (CHR ''S'', 18), (CHR ''T'', 19),
     (CHR ''U'', 20), (CHR ''V'', 21), (CHR ''W'', 22), (CHR ''X'', 23), (CHR ''Y'', 24),
     (CHR ''Z'', 25), (CHR ''a'', 26), (CHR ''b'', 27), (CHR ''c'', 28), (CHR ''d'', 29),
     (CHR ''e'', 30), (CHR ''f'', 31), (CHR ''g'', 32), (CHR ''h'', 33), (CHR ''i'', 34),
     (CHR ''j'', 35), (CHR ''k'', 36), (CHR ''l'', 37), (CHR ''m'', 38), (CHR ''n'', 39),
     (CHR ''o'', 40), (CHR ''p'', 41), (CHR ''q'', 42), (CHR ''r'', 43), (CHR ''s'', 44),
     (CHR ''t'', 45), (CHR ''u'', 46), (CHR ''v'', 47), (CHR ''w'', 48), (CHR ''x'', 49),
     (CHR ''y'', 50), (CHR ''z'', 51), (CHR ''0'', 52), (CHR ''1'', 53), (CHR ''2'', 54),
     (CHR ''3'', 55), (CHR ''4'', 56), (CHR ''5'', 57), (CHR ''6'', 58), (CHR ''7'', 59),
     (CHR ''8'', 60), (CHR ''9'', 61), (CHR ''+'', 62), (CHR ''/'', 63)]"

definition digit_value :: "char \<Rightarrow> nat option" where
  "digit_value = map_of
    [(CHR ''0'', 0), (CHR ''1'', 1), (CHR ''2'', 2), (CHR ''3'', 3), (CHR ''4'', 4),
     (CHR ''5'', 5), (CHR ''6'', 6), (CHR ''7'', 7), (CHR ''8'', 8), (CHR ''9'', 9)]"

fun b64_decode :: "nat list \<Rightarrow> nat list" where
  "b64_decode (a # b # c # d # rest) =
     [a * 4 + b div 16, (b mod 16) * 16 + c div 4, (c mod 4) * 64 + d] @ b64_decode rest"
| "b64_decode [a, b, c] = [a * 4 + b div 16, (b mod 16) * 16 + c div 4]"
| "b64_decode [a, b] = [a * 4 + b div 16]"
| "b64_decode rest = []"

definition node_toString_base64 :: "string \<Rightarrow> string" where
  "node_toString_base64 s = b64_encode (map of_char s)"

text \<open>The sextets of a base64 text: characters outside the alphabet are skipped, the
  padding ends the text.\<close>

definition sextets :: "string \<Rightarrow> nat list" where
  "sextets h = List.map_filter b64_value (takeWhile (\<lambda>c. c \<noteq> CHR ''='') h)"

definition node_from_base64 :: "string \<Rightarrow> string" where
  "node_from_base64 h = map char_of (b64_decode (sextets h))"

definition quoted :: "string \<Rightarrow> string" where
  "quoted s = CHR 0x22 # s @ [CHR 0x22]"

fun node_stringify :: "json \<Rightarrow> string"
  and stringify_elements :: "json list \<Rightarrow> string"
  and stringify_members :: "(string \<times> json) list \<Rightarrow> string" where
  "node_stringify JNull = ''null''"
| "node_stringify (JBool b) = (if b then ''true'' else ''false'')"
| "node_stringify (JNumber i) =
     (if i < 0 then CHR ''-'' # Number_toString (nat (- i)) else Number_toString (nat i))"
| "node_stringify (JString s) = quoted s"
| "node_stringify (JArray vs) = ''['' @ stringify_elements vs @ '']''"
| "node_stringify (JObject ms) = ''{'' @ stringify_members ms @ ''}''"
| "stringify_elements [] = []"
| "stringify_elements [v] = node_stringify v"
| "stringify_elements (v # w # vs) = node_stringify v @ '','' @ stringify_elements (w # vs)"
| "stringify_members [] = []"
| "stringify_members [(k, v)] = quoted k @ '':'' @ node_stringify v"
| "stringify_members ((k, v) # m # ms) =
     quoted k @ '':'' @ node_stringify v @ '','' @ stringify_members (m # ms)"

text \<open>The parser: recursive descent, with the length of the text as fuel for the
  nesting. Each function returns what it read and the rest of the text.\<close>

fun read_string :: "string \<Rightarrow> (string \<times> string) option" where
  "read_string [] = None"
| "read_string (c # cs) =
     (if c = CHR 0x22 then Some ([], cs)
      else (case read_string cs of None \<Rightarrow> None | Some (s, r) \<Rightarrow> Some (c # s, r)))"

fun read_digits :: "nat \<Rightarrow> string \<Rightarrow> nat \<times> string" where
  "read_digits acc [] = (acc, [])"
| "read_digits acc (c # cs) =
     (case digit_value c of
        None \<Rightarrow> (acc, c # cs)
      | Some d \<Rightarrow> read_digits (10 * acc + d) cs)"


definition read_number :: "string \<Rightarrow> (json \<times> string) option" where
  "read_number cs =
     (case cs of
        [] \<Rightarrow> None
      | c # r \<Rightarrow>
          if c = CHR ''-''
          then (case r of
                  [] \<Rightarrow> None
                | d # r' \<Rightarrow>
                    if digit_value d = None then None
                    else (case read_digits 0 r of (n, rest) \<Rightarrow> Some (JNumber (- int n), rest)))
          else if digit_value c = None then None
          else (case read_digits 0 cs of (n, rest) \<Rightarrow> Some (JNumber (int n), rest)))"

fun read_value :: "nat \<Rightarrow> string \<Rightarrow> (json \<times> string) option"
  and read_elements :: "nat \<Rightarrow> string \<Rightarrow> (json list \<times> string) option"
  and read_members :: "nat \<Rightarrow> string \<Rightarrow> ((string \<times> json) list \<times> string) option" where
  "read_value 0 cs = None"
| "read_value (Suc fuel) cs =
     (if take 4 cs = ''null'' then Some (JNull, drop 4 cs)
      else if take 4 cs = ''true'' then Some (JBool True, drop 4 cs)
      else if take 5 cs = ''false'' then Some (JBool False, drop 5 cs)
      else if take 1 cs = [CHR 0x22]
      then (case read_string (drop 1 cs) of
              None \<Rightarrow> None | Some (s, r) \<Rightarrow> Some (JString s, r))
      else if take 2 cs = ''[]'' then Some (JArray [], drop 2 cs)
      else if take 1 cs = ''[''
      then (case read_elements fuel (drop 1 cs) of
              None \<Rightarrow> None | Some (vs, r) \<Rightarrow> Some (JArray vs, r))
      else if take 2 cs = ''{}'' then Some (JObject [], drop 2 cs)
      else if take 1 cs = ''{''
      then (case read_members fuel (drop 1 cs) of
              None \<Rightarrow> None | Some (ms, r) \<Rightarrow> Some (JObject ms, r))
      else read_number cs)"
| "read_elements 0 cs = None"
| "read_elements (Suc fuel) cs =
     (case read_value fuel cs of
        None \<Rightarrow> None
      | Some (v, r) \<Rightarrow>
          if take 1 r = '']'' then Some ([v], drop 1 r)
          else if take 1 r = '','' 
          then (case read_elements fuel (drop 1 r) of
                  None \<Rightarrow> None | Some (vs, r') \<Rightarrow> Some (v # vs, r'))
          else None)"
| "read_members 0 cs = None"
| "read_members (Suc fuel) cs =
     (if take 1 cs \<noteq> [CHR 0x22] then None
      else (case read_string (drop 1 cs) of
              None \<Rightarrow> None
            | Some (k, r) \<Rightarrow>
                if take 1 r \<noteq> '':'' then None
                else (case read_value fuel (drop 1 r) of
                        None \<Rightarrow> None
                      | Some (v, r') \<Rightarrow>
                          if take 1 r' = ''}'' then Some ([(k, v)], drop 1 r')
                          else if take 1 r' = '',''
                          then (case read_members fuel (drop 1 r') of
                                  None \<Rightarrow> None
                                | Some (ms, r'') \<Rightarrow> Some ((k, v) # ms, r''))
                          else None)))"

definition node_parse :: "string \<Rightarrow> json option" where
  "node_parse s =
     (case read_value (Suc (length s)) s of
        Some (v, []) \<Rightarrow> Some v
      | _ \<Rightarrow> None)"

definition node :: builtins where
  "node = \<lparr>JSON_stringify = node_stringify, JSON_parse = node_parse,
           toString_base64 = node_toString_base64, from_base64 = node_from_base64\<rparr>"



section \<open>Payment verification of the Solana payment middleware (solpayx402.md)\<close>

text \<open>
  \<open>verifyPayment(signature, expectedAmount, receiver)\<close> fetches the transaction by its
  signature and reads, of what the RPC node returns, the error of the transaction and
  its token balances after execution. Amounts are UI amounts (0.25 USDC), modelled as
  rationals; \<open>uiAmount\<close> may be \<open>null\<close>, and so may \<open>meta\<close> and the list of balances.
\<close>

record tokenBalance =
  mint :: string
  owner :: string
  uiAmount :: "rat option"

record transactionMeta =
  err :: "string option"
  postTokenBalances :: "tokenBalance list option"

record confirmedTransaction =
  meta :: "transactionMeta option"

text \<open>The two errors the function throws itself, the TypeError of reading a property
  of \<open>null\<close>, and whatever the RPC call throws.\<close>

datatype verify_error =
    transaction_failed_or_not_found
  | insufficient_payment_amount
  | TypeError
  | RpcError string

text \<open>The USDC mint of the documented 402 response (devnet).\<close>

definition USDC_MINT_ADDRESS :: string where
  "USDC_MINT_ADDRESS = ''4zMMC9srt5Ri5X14GAgXhaHii3GnPAEERYPJgZJDncDU''"

text \<open>\<open>uiAmount < expectedAmount\<close>: \<open>null\<close> compares as 0.\<close>

definition less_than_expected :: "rat option \<Rightarrow> rat \<Rightarrow> bool" where
  "less_than_expected a expected = (case a of None \<Rightarrow> 0 < expected | Some x \<Rightarrow> x < expected)"

text \<open>\<open>connection.getTransaction\<close> is the first parameter: the error it throws, or the
  transaction, \<open>None\<close> for \<open>null\<close> (not found).\<close>

definition verifyPayment ::
  "(string \<Rightarrow> string + confirmedTransaction option) \<Rightarrow> string \<Rightarrow> rat \<Rightarrow> string
     \<Rightarrow> verify_error + bool" where
  "verifyPayment getTransaction signature expectedAmount receiver =
     (case getTransaction signature of
        Inl e \<Rightarrow> Inl (RpcError e)
      | Inr None \<Rightarrow> Inl transaction_failed_or_not_found
      | Inr (Some transaction) \<Rightarrow>
          (case meta transaction of
             None \<Rightarrow> Inl TypeError
           | Some m \<Rightarrow>
               if err m \<noteq> None then Inl transaction_failed_or_not_found
               else (case postTokenBalances m of
                       None \<Rightarrow> Inl TypeError
                     | Some balances \<Rightarrow>
                         (case find (\<lambda>balance. mint balance = USDC_MINT_ADDRESS) balances of
                            None \<Rightarrow> Inl insufficient_payment_amount
                          | Some tokenTransfer \<Rightarrow>
                              if less_than_expected (uiAmount tokenTransfer) expectedAmount
                              then Inl insufficient_payment_amount
                              else Inr True))))"

text \<open>An RPC answer for the examples: a successful transaction with the given token
  balances after execution.\<close>

definition confirmed_with :: "tokenBalance list \<Rightarrow> string \<Rightarrow> string + confirmedTransaction option" where
  "confirmed_with balances signature =
     Inr (Some \<lparr>meta = Some \<lparr>err = None, postTokenBalances = Some balances\<rparr>\<rparr>)"

section \<open>The SolPay402 client SDK (solpay402-sdk.md)\<close>

text \<open>
  An optional property of the options object passed to the constructor: the key is
  absent, present with the value \<open>undefined\<close>, or present with a value. The callbacks
  among the options are never called by the class and are left out.
\<close>

datatype 'a optional = Missing | Undefined | Given 'a

record SolPay402ClientOptions =
  autoApprove :: "bool optional"
  maxPaymentAmount :: "rat optional"
  preferredToken :: "string optional"

text \<open>The options the client keeps: \<open>None\<close> is \<open>undefined\<close>.\<close>

record stored_options =
  stored_autoApprove :: "bool option"
  stored_maxPaymentAmount :: "rat option"
  stored_preferredToken :: "string option"

text \<open>
  The constructor builds \<open>{ key: options.key || default, ...options }\<close>.
  \<open>options.key || default\<close> gives the default for an absent key, for \<open>undefined\<close> and for
  a falsy value (\<open>false\<close>, \<open>0\<close>, the empty string). The spread comes last: a key that
  \<open>options\<close> has, even with a falsy value or with \<open>undefined\<close>, replaces the entry
  written before it, and the entry stays only for an absent key.
\<close>

definition or_default_key :: "'a optional \<Rightarrow> 'a \<Rightarrow> 'a \<Rightarrow> 'a" where
  "or_default_key x falsy d =
     (case x of Missing \<Rightarrow> d | Undefined \<Rightarrow> d | Given v \<Rightarrow> if v = falsy then d else v)"

definition spread_over :: "'a \<Rightarrow> 'a optional \<Rightarrow> 'a option" where
  "spread_over entry x =
     (case x of Missing \<Rightarrow> Some entry | Undefined \<Rightarrow> None | Given v \<Rightarrow> Some v)"

definition SolPay402Client :: "SolPay402ClientOptions \<Rightarrow> stored_options" where
  "SolPay402Client options =
     \<lparr>stored_autoApprove =
        spread_over (or_default_key (autoApprove options) False False) (autoApprove options),
      stored_maxPaymentAmount =
        spread_over (or_default_key (maxPaymentAmount options) 0 1) (maxPaymentAmount options),
      stored_preferredToken =
        spread_over (or_default_key (preferredToken options) [] ''USDC'')
          (preferredToken options)\<rparr>"

definition no_options :: SolPay402ClientOptions where
  "no_options = \<lparr>autoApprove = Missing, maxPaymentAmount = Missing, preferredToken = Missing\<rparr>"

text \<open>\<open>paymentRequest.amount > self.options.maxPaymentAmount\<close>: false against
  \<open>undefined\<close>.\<close>

definition exceeds :: "rat \<Rightarrow> rat option \<Rightarrow> bool" where
  "exceeds amount cap = (case cap of None \<Rightarrow> False | Some m \<Rightarrow> m < amount)"

text \<open>Of a response the client reads the status and two headers.\<close>

record http_response =
  status :: nat
  X_PAYMENT_REQUEST :: "string option"
  X_PAYMENT_RESPONSE :: "string option"

text \<open>
  The surroundings of the client: \<open>fetch\<close>, given the X-PAYMENT header of the request
  if it has one (the error of a rejected promise, or the response); \<open>JSON.parse\<close> read
  as a \<open>PaymentRequest\<close>; the RPC node's recent blockhash; the wallet signing and
  serialising the transaction, and signing the message of the payment header; and
  \<open>JSON.stringify\<close> of the payment header.
\<close>

record surroundings =
  originalFetch :: "string option \<Rightarrow> string + http_response"
  JSON_parse_request :: "string \<Rightarrow> PaymentRequest option"
  getRecentBlockhash :: "string + string"
  signTransaction :: "string + string"
  signMessage :: "string \<Rightarrow> string + string"
  JSON_stringify_header :: "X402PaymentHeader \<Rightarrow> string"

text \<open>Errors by their structure: the messages nest as the \<open>catch\<close> blocks prefix them.\<close>

datatype client_error =
    Thrown string
  | SyntaxError_in_header
  | AmountExceedsMaximum rat "rat option"
  | NotApprovedByUser
  | UnsupportedToken string
  | FailedToCreatePayment client_error
  | PaymentFailed client_error

text \<open>What the client does to the outside, in order.\<close>

datatype client_event =
    Fetched "string option"
  | ApprovalRequested
  | BlockhashRequested
  | TransactionSigned
  | MessageSigned

text \<open>\<open>requestUserApproval\<close> logs the request and resolves to true.\<close>

definition requestUserApproval :: "PaymentRequest \<Rightarrow> bool" where
  "requestUserApproval paymentRequest = True"

text \<open>\<open>createPaymentTransaction\<close>: a placeholder transaction for SOL or USDC, then the
  recent blockhash.\<close>

definition createPaymentTransaction ::
  "surroundings \<Rightarrow> PaymentRequest \<Rightarrow> (client_error + unit) \<times> client_event list" where
  "createPaymentTransaction env paymentRequest =
     (if pr_token paymentRequest = ''SOL'' \<or> pr_token paymentRequest = ''USDC''
      then (case getRecentBlockhash env of
              Inl e \<Rightarrow> (Inl (Thrown e), [BlockhashRequested])
            | Inr blockhash \<Rightarrow> (Inr (), [BlockhashRequested]))
      else (Inl (UnsupportedToken (pr_token paymentRequest)), []))"

text \<open>\<open>createPaymentHeader\<close> of the utilities: the wallet signs the message made of the
  fields; the signature is kept as the wallet's text.\<close>

definition createPaymentHeader ::
  "surroundings \<Rightarrow> PaymentRequest \<Rightarrow> string \<Rightarrow> (client_error + X402PaymentHeader) \<times> client_event list" where
  "createPaymentHeader env paymentRequest serializedTransaction =
     (case signMessage env serializedTransaction of
        Inl e \<Rightarrow> (Inl (Thrown e), [MessageSigned])
      | Inr sig \<Rightarrow>
          (Inr \<lparr>h_version = ''1.0'', h_paymentId = pr_paymentId paymentRequest,
                 h_amount = pr_amount paymentRequest, h_token = pr_token paymentRequest,
                 h_recipient = pr_recipient paymentRequest,
                 h_transaction = serializedTransaction, h_signature = sig\<rparr>,
           [MessageSigned]))"

text \<open>\<open>createPayment\<close>: what is thrown while the transaction is built and signed is
  caught and wrapped; the promise of \<open>createPaymentHeader\<close> is returned without being
  awaited, so its rejection passes unwrapped.\<close>

definition createPayment ::
  "surroundings \<Rightarrow> PaymentRequest \<Rightarrow> (client_error + X402PaymentHeader) \<times> client_event list" where
  "createPayment env paymentRequest =
     (case createPaymentTransaction env paymentRequest of
        (Inl e, evs) \<Rightarrow> (Inl (FailedToCreatePayment e), evs)
      | (Inr u, evs) \<Rightarrow>
          (case signTransaction env of
             Inl e \<Rightarrow> (Inl (FailedToCreatePayment (Thrown e)), evs @ [TransactionSigned])
           | Inr serializedTransaction \<Rightarrow>
               (case createPaymentHeader env paymentRequest serializedTransaction of
                  (result, evs') \<Rightarrow> (result, evs @ [TransactionSigned] @ evs'))))"

text \<open>
  The function returned by \<open>createFetchWithPayment\<close>, applied to one request. A 402
  response with a non-empty X-PAYMENT-REQUEST header starts the payment; everything
  thrown inside the \<open>try\<close> is rethrown as "Payment failed"; the retried request is
  returned without being awaited. Any other response is returned as it is (its
  X-PAYMENT-RESPONSE header is only logged).
\<close>

definition createFetchWithPayment ::
  "stored_options \<Rightarrow> surroundings \<Rightarrow> (client_error + http_response) \<times> client_event list" where
  "createFetchWithPayment options env =
     (case originalFetch env None of
        Inl e \<Rightarrow> (Inl (Thrown e), [Fetched None])
      | Inr response \<Rightarrow>
          (case (if status response = 402 then X_PAYMENT_REQUEST response else None) of
             None \<Rightarrow> (Inr response, [Fetched None])
           | Some paymentRequestHeader \<Rightarrow>
               if paymentRequestHeader = [] then (Inr response, [Fetched None])
               else (case JSON_parse_request env paymentRequestHeader of
                  None \<Rightarrow> (Inl (PaymentFailed SyntaxError_in_header), [Fetched None])
                | Some paymentRequest \<Rightarrow>
                    if exceeds (pr_amount paymentRequest) (stored_maxPaymentAmount options)
                    then (Inl (PaymentFailed
                                (AmountExceedsMaximum (pr_amount paymentRequest)
                                   (stored_maxPaymentAmount options))),
                          [Fetched None])
                    else
                      let asked = (stored_autoApprove options \<noteq> Some True);
                          evs = [Fetched None] @ (if asked then [ApprovalRequested] else [])
                      in if asked \<and> \<not> requestUserApproval paymentRequest
                         then (Inl (PaymentFailed NotApprovedByUser), evs)
                         else (case createPayment env paymentRequest of
                                 (Inl e, evs') \<Rightarrow> (Inl (PaymentFailed e), evs @ evs')
                               | (Inr paymentHeader, evs') \<Rightarrow>
                                   (let paid = Some (JSON_stringify_header env paymentHeader)
                                    in (case originalFetch env paid of
                                          Inl e \<Rightarrow> Inl (Thrown e)
                                        | Inr retried \<Rightarrow> Inr retried,
                                        evs @ evs' @ [Fetched paid]))))))"

text \<open>A server for the examples: it answers every request without payment with a 402
  asking for 5 USDC, and a paid one with 200; the wallet and the node work.\<close>

definition five_usdc :: PaymentRequest where
  "five_usdc = \<lparr>pr_amount = 5, pr_token = ''USDC'', pr_recipient = ''MERCHANT'',
                pr_paymentId = ''1000'', pr_expiresAt = 301000,
                pr_description = ''Payment for service''\<rparr>"

definition asks_five :: surroundings where
  "asks_five =
     \<lparr>originalFetch = (\<lambda>payment. case payment of
          None \<Rightarrow> Inr \<lparr>status = 402, X_PAYMENT_REQUEST = Some ''five'',
                        X_PAYMENT_RESPONSE = None\<rparr>
        | Some p \<Rightarrow> Inr \<lparr>status = 200, X_PAYMENT_REQUEST = None,
                          X_PAYMENT_RESPONSE = None\<rparr>),
      JSON_parse_request = (\<lambda>s. if s = ''five'' then Some five_usdc else None),
      getRecentBlockhash = Inr ''blockhash'',
      signTransaction = Inr ''c2lnbmVk'',
      signMessage = (\<lambda>m. Inr ''c2ln''),
      JSON_stringify_header = (\<lambda>h. ''X-PAYMENT for '' @ h_paymentId h)\<rparr>"

section \<open>The pagination hook (art-studio frontend, usePagination)\<close>

text \<open>
  The hook keeps three pieces of React state: \<open>page\<close>, \<open>pageSize\<close> and \<open>total\<close>.
  They are JavaScript numbers used as item and page counts; they are modelled as
  integers. On integers of magnitude below \<open>2^53\<close> the model's arithmetic is that of
  the doubles: \<open>+ 1\<close> and \<open>- 1\<close> are exact, and so is \<open>Math.ceil\<close> of the rounded quotient
  (a quotient that is no integer lies at least \<open>1 / pageSize\<close> from the next integer,
  more than half the spacing of the doubles there).
\<close>

datatype jsnum = NaN | NegInfinity | Finite int | PosInfinity

record pagination =
  page :: int
  pageSize :: int
  total :: int



text \<open>\<open>Math.ceil(total / pageSize)\<close>: the division is JavaScript's, so a zero page size
  gives an infinity or NaN and not an error.\<close>

definition ceil_div :: "int \<Rightarrow> int \<Rightarrow> jsnum" where
  "ceil_div t p =
     (if p = 0 then (if t = 0 then NaN else if 0 < t then PosInfinity else NegInfinity)
      else Finite \<lceil>(of_int t :: rat) / of_int p\<rceil>)"

definition totalPages :: "pagination \<Rightarrow> jsnum" where
  "totalPages s = ceil_div (total s) (pageSize s)"

text \<open>JavaScript's \<open><\<close> and \<open><=\<close> between a count and a derived number: every
  comparison with NaN is false.\<close>

fun js_less :: "int \<Rightarrow> jsnum \<Rightarrow> bool" where
  "js_less n NaN = False"
| "js_less n NegInfinity = False"
| "js_less n (Finite m) = (n < m)"
| "js_less n PosInfinity = True"

fun js_le :: "int \<Rightarrow> jsnum \<Rightarrow> bool" where
  "js_le n NaN = False"
| "js_le n NegInfinity = False"
| "js_le n (Finite m) = (n \<le> m)"
| "js_le n PosInfinity = True"

definition hasNextPage :: "pagination \<Rightarrow> bool" where
  "hasNextPage s = js_less (page s) (totalPages s)"

definition hasPreviousPage :: "pagination \<Rightarrow> bool" where
  "hasPreviousPage s = (1 < page s)"

text \<open>
  What a render derives from the state and hands to the callbacks it creates: each
  callback is rebuilt when the value it depends on has changed, so the callbacks of a
  render hold the values of that render.
\<close>

record rendered =
  seen_totalPages :: jsnum
  seen_hasNextPage :: bool
  seen_hasPreviousPage :: bool

definition render :: "pagination \<Rightarrow> rendered" where
  "render s =
     \<lparr>seen_totalPages = totalPages s, seen_hasNextPage = hasNextPage s,
      seen_hasPreviousPage = hasPreviousPage s\<rparr>"

text \<open>
  The callbacks of a render, applied to the state as it is when the update runs.
  \<open>nextPage\<close> and \<open>previousPage\<close> test the value their render has seen and then update
  through a function of the previous state (\<open>setPage((prev) => prev + 1)\<close>); \<open>goToPage\<close>
  tests against the \<open>totalPages\<close> its render has seen.
\<close>

definition nextPage :: "rendered \<Rightarrow> pagination \<Rightarrow> pagination" where
  "nextPage r s = (if seen_hasNextPage r then s\<lparr>page := page s + 1\<rparr> else s)"

definition previousPage :: "rendered \<Rightarrow> pagination \<Rightarrow> pagination" where
  "previousPage r s = (if seen_hasPreviousPage r then s\<lparr>page := page s - 1\<rparr> else s)"

definition goToPage :: "rendered \<Rightarrow> int \<Rightarrow> pagination \<Rightarrow> pagination" where
  "goToPage r newPage s =
     (if 1 \<le> newPage \<and> js_le newPage (seen_totalPages r) then s\<lparr>page := newPage\<rparr> else s)"

definition changePageSize :: "int \<Rightarrow> pagination \<Rightarrow> pagination" where
  "changePageSize newPageSize s = s\<lparr>pageSize := newPageSize, page := 1\<rparr>"

definition updateTotal :: "int \<Rightarrow> pagination \<Rightarrow> pagination" where
  "updateTotal newTotal s = s\<lparr>total := newTotal\<rparr>"

text \<open>
  An event handler calls callbacks of the render on screen, one after the other; React
  applies the queued updates in order and then renders again. A session is a sequence
  of handlers, each run against the render of the state the one before has left.
\<close>

datatype call = NextPage | PreviousPage | GoToPage int | ChangePageSize int | UpdateTotal int

fun perform :: "rendered \<Rightarrow> call \<Rightarrow> pagination \<Rightarrow> pagination" where
  "perform r NextPage s = nextPage r s"
| "perform r PreviousPage s = previousPage r s"
| "perform r (GoToPage n) s = goToPage r n s"
| "perform r (ChangePageSize k) s = changePageSize k s"
| "perform r (UpdateTotal t) s = updateTotal t s"

definition handler :: "call list \<Rightarrow> pagination \<Rightarrow> pagination" where
  "handler calls s = fold (perform (render s)) calls s"




section \<open>Decimal texts and evaluation of the reference built-ins\<close>

declare Number_toString.simps [simp del]

lemma Number_toString_nonempty: "Number_toString n \<noteq> []"
  by (subst Number_toString.simps) simp

lemma decimal_digit_inj:
  "a < 10 \<Longrightarrow> b < 10 \<Longrightarrow> decimal_digits ! a = decimal_digits ! b \<Longrightarrow> a = b"
proof -
  have "distinct decimal_digits" "length decimal_digits = 10"
    by (simp_all add: decimal_digits_def)
  then show "a < 10 \<Longrightarrow> b < 10 \<Longrightarrow> decimal_digits ! a = decimal_digits ! b \<Longrightarrow> a = b"
    by (simp add: nth_eq_iff_index_eq)
qed

text \<open>Two numbers with the same decimal text are equal: by the recursion of
  \<open>Number_toString\<close>, comparing last digits and the texts of the quotients.\<close>

lemma Number_toString_inj: "Number_toString m = Number_toString n \<Longrightarrow> m = n"
proof (induction m arbitrary: n rule: Number_toString.induct)
  case (1 m)
  show ?case
  proof (cases "m < 10")
    case True
    show ?thesis
    proof (cases "n < 10")
      case True
      with \<open>m < 10\<close> "1.prems" show ?thesis
        by (simp add: Number_toString.simps [of m] Number_toString.simps [of n]
            decimal_digit_inj)
    next
      case False
      with \<open>m < 10\<close> "1.prems" Number_toString_nonempty [of "n div 10"] show ?thesis
        by (simp add: Number_toString.simps [of m] Number_toString.simps [of n])
    qed
  next
    case False
    show ?thesis
    proof (cases "n < 10")
      case True
      with False "1.prems" Number_toString_nonempty [of "m div 10"] show ?thesis
        by (simp add: Number_toString.simps [of m] Number_toString.simps [of n])
    next
      case nf: False
      from False nf "1.prems"
      have e: "Number_toString (m div 10) = Number_toString (n div 10)"
        and d: "decimal_digits ! (m mod 10) = decimal_digits ! (n mod 10)"
        by (simp_all add: Number_toString.simps [of m] Number_toString.simps [of n])
      from "1.IH" [OF False e] have "m div 10 = n div 10" .
      moreover from d have "m mod 10 = n mod 10" by (intro decimal_digit_inj) simp_all
      ultimately show ?thesis by (metis div_mult_mod_eq)
    qed
  qed
qed

text \<open>The equations that run the reference built-ins on a concrete text.\<close>

lemmas run_builtins = node_def node_toString_base64_def node_from_base64_def node_parse_def
  b64_alphabet_def b64_value_def digit_value_def quoted_def read_number_def
  Number_toString.simps decimal_digits_def sextets_def List.map_filter_def char_of_def bit_0

text \<open>The equations of the facilitator and of the middleware, for case analyses and
  concrete runs.\<close>

lemmas facilitator_defs = verifyAndSettlePayment_def decodeTransaction_def sendTransaction_def

lemmas middleware_defs = paymentRequiredMiddleware_def parsePaymentHeader_def
  payment_header_def

section \<open>Facilitator and middleware: proofs\<close>

text \<open>The four shapes of a facilitator run.\<close>

lemma verifyAndSettlePayment_calls:
  "snd (verifyAndSettlePayment led now header) \<in>
     {[], [VerifyCalled False], [VerifyCalled True, SendCalled],
      [VerifyCalled True, SendCalled, ConfirmCalled]}"
  by (simp add: facilitator_defs split: option.split sum.split)

lemma middleware_calls:
  "snd (paymentRequiredMiddleware cfg led now req) \<in>
     {[], [VerifyCalled False], [VerifyCalled True, SendCalled],
      [VerifyCalled True, SendCalled, ConfirmCalled]}"
proof (cases "payment_header req")
  case None
  then show ?thesis by (simp add: paymentRequiredMiddleware_def)
next
  case (Some h)
  show ?thesis
  proof (cases "JSON_parse_header led h")
    case None
    with Some show ?thesis by (simp add: paymentRequiredMiddleware_def parsePaymentHeader_def)
  next
    case (Some parsed)
    with \<open>payment_header req = Some h\<close>
    have "snd (paymentRequiredMiddleware cfg led now req)
          = snd (verifyAndSettlePayment led now parsed)"
      by (simp add: paymentRequiredMiddleware_def parsePaymentHeader_def split: prod.split)
    then show ?thesis using verifyAndSettlePayment_calls [of led now parsed] by simp
  qed
qed

lemma guarded_shapes:
  assumes "calls \<in> {[], [VerifyCalled False], [VerifyCalled True, SendCalled],
                     [VerifyCalled True, SendCalled, ConfirmCalled]}"
  shows "\<forall>i < length calls. calls ! i = SendCalled \<longrightarrow>
           0 < i \<and> calls ! (i - 1) = VerifyCalled True"
    and "SendCalled \<in> set calls \<longrightarrow>
           VerifyCalled True \<in> set calls \<and> VerifyCalled False \<notin> set calls"
  using assms by (auto simp: nth_Cons split: nat.splits)

text \<open>
  Claim C4. In every request cycle of the middleware, whatever the request, the clock,
  the ledger and the decoders do, the transaction is submitted for settlement only
  directly after \<open>verifyTransaction\<close> has answered true in that same cycle: a submission
  is never the first call, the call before it is the positive verification, no cycle
  holds both a failed verification and a submission, and a request without payment
  header (or with an empty one) makes no call at all.
\<close>

theorem no_settlement_without_verification:
  assumes "paymentRequiredMiddleware cfg led now req = (resp, calls)"
  shows "(\<forall>i < length calls. calls ! i = SendCalled \<longrightarrow>
            0 < i \<and> calls ! (i - 1) = VerifyCalled True)
       \<and> (SendCalled \<in> set calls \<longrightarrow>
            VerifyCalled True \<in> set calls \<and> VerifyCalled False \<notin> set calls)
       \<and> (payment_header req = None \<longrightarrow> calls = [])
       \<and> (granted resp \<longrightarrow> VerifyCalled True \<in> set calls)"
proof -
  from assms have c: "calls = snd (paymentRequiredMiddleware cfg led now req)" by simp
  have shape: "calls \<in> {[], [VerifyCalled False], [VerifyCalled True, SendCalled],
                        [VerifyCalled True, SendCalled, ConfirmCalled]}"
    unfolding c by (rule middleware_calls)
  have none: "payment_header req = None \<longrightarrow> calls = []"
    using assms by (auto simp: paymentRequiredMiddleware_def)
  have grant: "granted resp \<longrightarrow> VerifyCalled True \<in> set calls"
    using assms
    by (auto simp: paymentRequiredMiddleware_def parsePaymentHeader_def facilitator_defs failed_def
        split: option.splits sum.splits if_splits prod.splits)
  from guarded_shapes [OF shape] none grant show ?thesis by blast
qed

theorem no_settlement_without_verification_witness:
  "paymentRequiredMiddleware shop accepting_ledger 2000 paid
     = (Next (Some \<lparr>pt_signature = ''5Xj8'', pt_amount = 1 / 100, pt_token = ''USDC'',
                    pt_recipient = ''MERCHANT'', pt_blockTime = 2000\<rparr>),
        [VerifyCalled True, SendCalled, ConfirmCalled])
   \<and> [VerifyCalled True, SendCalled, ConfirmCalled] ! 1 = SendCalled
   \<and> [VerifyCalled True, SendCalled, ConfirmCalled] ! (1 - 1) = VerifyCalled True
   \<and> paymentRequiredMiddleware shop accepting_ledger 2000 native
     = (VerificationFailed (Some ''Invalid transaction'') ''1000'', [VerifyCalled False])
   \<and> payment_header unpaid = None
   \<and> snd (paymentRequiredMiddleware shop accepting_ledger 2000 unpaid) = []"
proof -
  have run: "paymentRequiredMiddleware shop accepting_ledger 2000 paid
     = (Next (Some \<lparr>pt_signature = ''5Xj8'', pt_amount = 1 / 100, pt_token = ''USDC'',
                    pt_recipient = ''MERCHANT'', pt_blockTime = 2000\<rparr>),
        [VerifyCalled True, SendCalled, ConfirmCalled])"
    by (simp add: middleware_defs facilitator_defs
        verifyTransaction_def accepting_ledger_def paid_def unpaid_def header_for_def
        token_transfer_def settled_def)
  have refused: "paymentRequiredMiddleware shop accepting_ledger 2000 native
     = (VerificationFailed (Some ''Invalid transaction'') ''1000'', [VerifyCalled False])"
    by (simp add: middleware_defs facilitator_defs
        verifyTransaction_def accepting_ledger_def native_def unpaid_def header_for_def
        system_transfer_def failed_def TOKEN_PROGRAM_ID_def)
  have none: "payment_header unpaid = None"
    by (simp add: unpaid_def payment_header_def)
  obtain resp calls
    where first: "paymentRequiredMiddleware shop accepting_ledger 2000 unpaid = (resp, calls)"
    by (cases "paymentRequiredMiddleware shop accepting_ledger 2000 unpaid")
  from no_settlement_without_verification [OF run]
    no_settlement_without_verification [OF refused]
    no_settlement_without_verification [OF first] run refused none first
  show ?thesis by simp
qed

section \<open>Expiry and payment ids of the middleware: proofs\<close>

text \<open>
  Claim C6, as amended. The expiry of a challenge is advertised only: it is the clock
  reading at issue plus \<open>paymentExpiryMs\<close>. The verification of a presented payment
  reads neither the clock nor any \<open>expiresAt\<close>: for every ledger and header the verdict
  and the calls made are the same at any two times, and so is whether the middleware
  lets a paid request through.
\<close>

theorem expiry_advertised_not_enforced:
  "pr_expiresAt (challenge cfg now req) = now + paymentExpiryMs cfg
   \<and> success (fst (verifyAndSettlePayment led t1 header))
       = success (fst (verifyAndSettlePayment led t2 header))
   \<and> snd (verifyAndSettlePayment led t1 header) = snd (verifyAndSettlePayment led t2 header)
   \<and> granted (fst (paymentRequiredMiddleware cfg led t1 (req\<lparr>x_payment := Some h\<rparr>)))
       = granted (fst (paymentRequiredMiddleware cfg led t2 (req\<lparr>x_payment := Some h\<rparr>)))"
proof -
  have v: "success (fst (verifyAndSettlePayment led t1 hd))
             = success (fst (verifyAndSettlePayment led t2 hd))
           \<and> snd (verifyAndSettlePayment led t1 hd) = snd (verifyAndSettlePayment led t2 hd)"
    for hd
    by (simp add: facilitator_defs failed_def settled_def
        split: option.split sum.split)
  have g: "granted (fst (paymentRequiredMiddleware cfg led t (req\<lparr>x_payment := Some h\<rparr>)))
           = (if h = [] then False
              else case JSON_parse_header led h of None \<Rightarrow> False
                   | Some parsed \<Rightarrow> success (fst (verifyAndSettlePayment led t parsed)))" for t
    by (simp add: middleware_defs split: option.split prod.split)
  have "granted (fst (paymentRequiredMiddleware cfg led t1 (req\<lparr>x_payment := Some h\<rparr>)))
       = granted (fst (paymentRequiredMiddleware cfg led t2 (req\<lparr>x_payment := Some h\<rparr>)))"
    unfolding g using v by (simp split: option.split)
  moreover have "pr_expiresAt (challenge cfg now req) = now + paymentExpiryMs cfg"
    by (simp add: challenge_def)
  ultimately show ?thesis using v [of header] by simp
qed

theorem expiry_advertised_not_enforced_witness:
  "pr_expiresAt (challenge shop 1000 unpaid) = 301000
   \<and> granted (fst (paymentRequiredMiddleware shop accepting_ledger 2000 paid))
   \<and> granted (fst (paymentRequiredMiddleware shop accepting_ledger 999999 paid))"
proof -
  have run: "granted (fst (paymentRequiredMiddleware shop accepting_ledger 2000 paid))"
    by (simp add: middleware_defs facilitator_defs
        verifyTransaction_def accepting_ledger_def paid_def unpaid_def header_for_def
        token_transfer_def settled_def)
  have p: "paid = unpaid\<lparr>x_payment := Some ''paid''\<rparr>"
    by (simp add: paid_def)
  from expiry_advertised_not_enforced
    [where cfg = shop and now = 1000 and req = unpaid and led = accepting_ledger
      and ?t1.0 = 2000 and ?t2.0 = 999999 and h = "''paid''"
      and header = "header_for ''1000'' ''dHJhbnNmZXI=''"]
    run show ?thesis
    by (simp add: p shop_def config_of_def)
qed

text \<open>
  Claim C6 as stated fails on the middleware. The challenge issued at time 1000 carries
  payment id 1000 and expires at 301000. A payment for that id presented exactly at
  301000, and one presented long after, are verified, settled and let through: no
  response says the payment has expired.
\<close>

theorem expired_payment_accepted_counterexample:
  "pr_paymentId (challenge shop 1000 unpaid) = ''1000''
   \<and> pr_expiresAt (challenge shop 1000 unpaid) = 301000
   \<and> JSON_parse_header accepting_ledger ''paid'' = Some (header_for ''1000'' ''dHJhbnNmZXI='')
   \<and> paymentRequiredMiddleware shop accepting_ledger 301000 paid
       = (Next (Some \<lparr>pt_signature = ''5Xj8'', pt_amount = 1 / 100, pt_token = ''USDC'',
                      pt_recipient = ''MERCHANT'', pt_blockTime = 301000\<rparr>),
          [VerifyCalled True, SendCalled, ConfirmCalled])
   \<and> granted (fst (paymentRequiredMiddleware shop accepting_ledger 999999 paid))"
  by (simp add: middleware_defs facilitator_defs
      verifyTransaction_def accepting_ledger_def paid_def unpaid_def header_for_def
      token_transfer_def settled_def challenge_def shop_def config_of_def or_default_def
      Number_toString.simps decimal_digits_def)

text \<open>A request that carries a payment header is never answered with a challenge, so
  the challenges of a run are those of its requests without header, each with the
  decimal text of its clock reading as payment id.\<close>

lemma issued_ids_paid:
  assumes "payment_header req = Some h"
  shows "issued_ids (fst (paymentRequiredMiddleware cfg led now req) # rs) = issued_ids rs"
proof (cases "fst (paymentRequiredMiddleware cfg led now req)")
  case (PaymentRequired pr)
  with assms show ?thesis
    by (auto simp: middleware_defs split: option.splits prod.splits if_splits)
qed simp_all

lemma issued_ids_serve:
  "issued_ids (serve cfg led reqs)
     = map (\<lambda>tr. Number_toString (fst tr)) (filter (\<lambda>tr. payment_header (snd tr) = None) reqs)"
proof (induction reqs)
  case Nil
  show ?case by simp
next
  case (Cons a reqs)
  obtain now req where a: "a = (now, req)" by (cases a)
  show ?case
  proof (cases "payment_header req")
    case None
    then have "fst (paymentRequiredMiddleware cfg led now req)
               = PaymentRequired (challenge cfg now req)"
      by (simp add: middleware_defs)
    with None Cons.IH show ?thesis by (simp add: a challenge_def)
  next
    case (Some h)
    with Cons.IH issued_ids_paid [OF Some] show ?thesis by (simp add: a)
  qed
qed

text \<open>
  Claim C7, as amended. The payment id of a challenge is the decimal text of the
  millisecond clock at issue, so two challenges carry the same payment id exactly when
  they were issued at the same clock reading; when the requests of a run are handled at
  pairwise different clock readings, the payment ids of all challenges issued in the
  run are pairwise different. The answer to a request that carries a payment header is
  never a challenge, and a rejection echoes the payment id of the header it was given.
\<close>

theorem payment_ids_distinct_with_distinct_clock:
  assumes "distinct (map fst reqs)"
  shows "distinct (issued_ids (serve cfg led reqs))
       \<and> (pr_paymentId (challenge cfg t1 r1) = pr_paymentId (challenge cfg' t2 r2)) = (t1 = t2)
       \<and> (payment_header req = Some h \<longrightarrow>
            (\<forall>pr. fst (paymentRequiredMiddleware cfg led now req) \<noteq> PaymentRequired pr))
       \<and> (payment_header req = Some h \<and> JSON_parse_header led h = Some parsed
            \<and> fst (paymentRequiredMiddleware cfg led now req) = VerificationFailed e pid
            \<longrightarrow> pid = h_paymentId parsed)"
proof -
  have inj: "inj_on (\<lambda>tr. Number_toString (fst tr))
               (set (filter (\<lambda>tr. payment_header (snd tr) = None) reqs))"
  proof (rule inj_onI)
    fix x y :: "nat \<times> request"
    assume x: "x \<in> set (filter (\<lambda>tr. payment_header (snd tr) = None) reqs)"
      and y: "y \<in> set (filter (\<lambda>tr. payment_header (snd tr) = None) reqs)"
      and e: "Number_toString (fst x) = Number_toString (fst y)"
    from e have "fst x = fst y" by (rule Number_toString_inj)
    moreover from x y have "x \<in> set reqs" "y \<in> set reqs" by simp_all
    ultimately show "x = y" using assms by (meson distinct_map inj_onD)
  qed
  from assms have "distinct reqs" by (simp add: distinct_map)
  then have "distinct (filter (\<lambda>tr. payment_header (snd tr) = None) reqs)" by simp
  with inj have "distinct (issued_ids (serve cfg led reqs))"
    by (simp add: issued_ids_serve distinct_map)
  moreover have
    "(pr_paymentId (challenge cfg t1 r1) = pr_paymentId (challenge cfg' t2 r2)) = (t1 = t2)"
    using Number_toString_inj [of t1 t2] by (auto simp: challenge_def)
  moreover have "payment_header req = Some h \<longrightarrow>
      (\<forall>pr. fst (paymentRequiredMiddleware cfg led now req) \<noteq> PaymentRequired pr)"
    by (auto simp: middleware_defs split: option.splits prod.splits if_splits)
  moreover have "payment_header req = Some h \<and> JSON_parse_header led h = Some parsed
      \<and> fst (paymentRequiredMiddleware cfg led now req) = VerificationFailed e pid
      \<longrightarrow> pid = h_paymentId parsed"
    by (auto simp: middleware_defs split: prod.splits if_splits)
  ultimately show ?thesis by blast
qed

theorem payment_ids_distinct_with_distinct_clock_witness:
  "distinct (map fst [(1000::nat, unpaid), (1001, garbled), (1002, unpaid)])
   \<and> distinct (issued_ids (serve shop accepting_ledger
                  [(1000, unpaid), (1001, garbled), (1002, unpaid)]))
   \<and> payment_header garbled = Some ''garbled''
   \<and> JSON_parse_header accepting_ledger ''garbled''
       = Some (header_for ''1700000000000'' ''????'')
   \<and> fst (paymentRequiredMiddleware shop accepting_ledger 1001 garbled)
       = VerificationFailed (Some ''Invalid transaction encoding'') ''1700000000000''
   \<and> h_paymentId (header_for ''1700000000000'' ''????'') = ''1700000000000''"
proof -
  have h: "distinct (map fst [(1000::nat, unpaid), (1001, garbled), (1002, unpaid)])"
    by simp
  have x: "payment_header garbled = Some ''garbled''"
    by (simp add: garbled_def payment_header_def)
  have p: "JSON_parse_header accepting_ledger ''garbled''
             = Some (header_for ''1700000000000'' ''????'')"
    by (simp add: accepting_ledger_def)
  have r: "fst (paymentRequiredMiddleware shop accepting_ledger 1001 garbled)
             = VerificationFailed (Some ''Invalid transaction encoding'') ''1700000000000''"
    by (simp add: middleware_defs facilitator_defs
        accepting_ledger_def garbled_def unpaid_def header_for_def failed_def)
  from payment_ids_distinct_with_distinct_clock
    [OF h, where cfg = shop and led = accepting_ledger and req = garbled
      and h = "''garbled''" and now = 1001
      and parsed = "header_for ''1700000000000'' ''????''"
      and e = "Some ''Invalid transaction encoding''" and pid = "''1700000000000''"]
    h x p r
  show ?thesis by (simp add: header_for_def)
qed

text \<open>
  Claim C7 as stated fails on the middleware. Three requests handled within one
  millisecond: a first challenge, a payment that is rejected, and the next challenge.
  The challenge issued after the rejection carries the payment id of the first one (and
  the rejection itself only echoes the payment id it was given).
\<close>

theorem payment_id_reissued_counterexample:
  "serve shop accepting_ledger
     [(1700000000000, unpaid), (1700000000000, garbled), (1700000000000, unpaid)] ! 1
     = VerificationFailed (Some ''Invalid transaction encoding'') ''1700000000000''
   \<and> issued_ids (serve shop accepting_ledger
        [(1700000000000, unpaid), (1700000000000, garbled), (1700000000000, unpaid)])
       = [''1700000000000'', ''1700000000000'']
   \<and> \<not> distinct (issued_ids (serve shop accepting_ledger
        [(1700000000000, unpaid), (1700000000000, garbled), (1700000000000, unpaid)]))"
  by (simp add: middleware_defs facilitator_defs
      accepting_ledger_def garbled_def unpaid_def header_for_def failed_def
      challenge_def Number_toString.simps decimal_digits_def)

section \<open>Repeated and failed settlements: proofs\<close>

text \<open>The facilitator reads the clock only for the block time it reports.\<close>

lemma verdict_independent_of_clock:
  "success (fst (verifyAndSettlePayment led t1 header))
     = success (fst (verifyAndSettlePayment led t2 header))"
  "error (fst (verifyAndSettlePayment led t1 header))
     = error (fst (verifyAndSettlePayment led t2 header))"
  "snd (verifyAndSettlePayment led t1 header) = snd (verifyAndSettlePayment led t2 header)"
  by (simp_all add: facilitator_defs failed_def settled_def split: sum.split)


lemma granted_iff_settled:
  "granted (fst (paymentRequiredMiddleware cfg led t req))
     = (case payment_header req of
          None \<Rightarrow> False
        | Some h \<Rightarrow>
            (case JSON_parse_header led h of
               None \<Rightarrow> False
             | Some parsed \<Rightarrow> success (fst (verifyAndSettlePayment led t parsed))))"
  by (simp add: middleware_defs split: option.split prod.split)

lemma granted_independent_of_clock:
  "granted (fst (paymentRequiredMiddleware cfg led t1 req))
     = granted (fst (paymentRequiredMiddleware cfg led t2 req))"
  unfolding granted_iff_settled
  using verdict_independent_of_clock(1) [of led t1 _ t2]
  by (simp split: option.split)





text \<open>
  Claim C5, as amended. When the submission or the confirmation of a verified
  transaction throws (a time-out, a refusal by the node), the facilitator answers
  \<open>success = false\<close> with the payment id of the header and, as error, the message of
  what was thrown: prefixed by "Transaction sending failed: " for the submission, as it
  is for the confirmation. There are no error kinds. Nothing is recorded about the
  failed attempt: a later attempt with the same header is decided by the node alone, and
  succeeds when the node then accepts and confirms the transaction without error.
\<close>

theorem failed_settlement_reported_and_retriable:
  assumes "Transaction_from led (h_transaction header) = Some tx"
    and "verifyTransaction tx header"
  shows "(sendRawTransaction led tx = Inl e \<longrightarrow>
            fst (verifyAndSettlePayment led now header)
              = \<lparr>success = False, ps_transaction = None,
                 error = Some (''Transaction sending failed: '' @ e),
                 ps_paymentId = h_paymentId header\<rparr>)
       \<and> (sendRawTransaction led tx = Inr sig \<and> confirmTransaction led sig = Inl e \<longrightarrow>
            fst (verifyAndSettlePayment led now header)
              = \<lparr>success = False, ps_transaction = None, error = Some e,
                 ps_paymentId = h_paymentId header\<rparr>)
       \<and> (Transaction_from later (h_transaction header) = Some tx
            \<and> sendRawTransaction later tx = Inr sig' \<and> confirmTransaction later sig' = Inr None
          \<longrightarrow> success (fst (verifyAndSettlePayment later now' header))
              \<and> ps_paymentId (fst (verifyAndSettlePayment later now' header))
                  = h_paymentId header)"
  using assms by (simp add: facilitator_defs failed_def settled_def)

text \<open>The witness: the payment of the examples on a node that times out, on a node
  that refuses the transaction, and afterwards on the node that accepts it.\<close>

theorem failed_settlement_reported_and_retriable_witness:
  "Transaction_from timing_out_ledger ''dHJhbnNmZXI='' = Some token_transfer
   \<and> verifyTransaction token_transfer (header_for ''1000'' ''dHJhbnNmZXI='')
   \<and> sendRawTransaction timing_out_ledger token_transfer = Inr ''5Xj8''
   \<and> confirmTransaction timing_out_ledger ''5Xj8''
       = Inl ''Transaction was not confirmed in 30.00 seconds''
   \<and> fst (verifyAndSettlePayment timing_out_ledger 2000 (header_for ''1000'' ''dHJhbnNmZXI=''))
       = \<lparr>success = False, ps_transaction = None,
          error = Some ''Transaction was not confirmed in 30.00 seconds'',
          ps_paymentId = ''1000''\<rparr>
   \<and> sendRawTransaction refusing_ledger token_transfer = Inl ''Error: Blockhash not found''
   \<and> fst (verifyAndSettlePayment refusing_ledger 2000 (header_for ''1000'' ''dHJhbnNmZXI=''))
       = \<lparr>success = False, ps_transaction = None,
          error = Some ''Transaction sending failed: Error: Blockhash not found'',
          ps_paymentId = ''1000''\<rparr>
   \<and> confirmTransaction accepting_ledger ''5Xj8'' = Inr None
   \<and> success (fst (verifyAndSettlePayment accepting_ledger 2001
                    (header_for ''1000'' ''dHJhbnNmZXI='')))"
proof -
  let ?h = "header_for ''1000'' ''dHJhbnNmZXI=''"
  have d: "Transaction_from timing_out_ledger (h_transaction ?h) = Some token_transfer"
    "Transaction_from refusing_ledger (h_transaction ?h) = Some token_transfer"
    "Transaction_from accepting_ledger (h_transaction ?h) = Some token_transfer"
    by (simp_all add: timing_out_ledger_def refusing_ledger_def accepting_ledger_def
        header_for_def)
  have v: "verifyTransaction token_transfer ?h"
    by (simp add: verifyTransaction_def token_transfer_def header_for_def)
  have s: "sendRawTransaction timing_out_ledger token_transfer = Inr ''5Xj8''"
    "sendRawTransaction accepting_ledger token_transfer = Inr ''5Xj8''"
    "sendRawTransaction refusing_ledger token_transfer = Inl ''Error: Blockhash not found''"
    by (simp_all add: timing_out_ledger_def refusing_ledger_def accepting_ledger_def)
  have c: "confirmTransaction timing_out_ledger ''5Xj8''
             = Inl ''Transaction was not confirmed in 30.00 seconds''"
    "confirmTransaction accepting_ledger ''5Xj8'' = Inr None"
    by (simp_all add: timing_out_ledger_def accepting_ledger_def)
  from failed_settlement_reported_and_retriable
    [OF d(1) v, where sig = "''5Xj8''"
      and e = "''Transaction was not confirmed in 30.00 seconds''"
      and later = accepting_ledger and sig' = "''5Xj8''" and now = 2000 and now' = 2001]
    failed_settlement_reported_and_retriable
    [OF d(2) v, where e = "''Error: Blockhash not found''" and now = 2000]
    d v s c
  show ?thesis by (simp add: header_for_def)
qed

text \<open>
  Claim C5 as stated fails on the facilitator. A confirmation that times out is
  answered with the text of the time-out as error, and a transaction the node refuses
  with the text of the refusal: the error is never one of the kinds SettlementTimeout
  and SettlementRejected. And a transaction that lands and fails, so that the
  confirmation resolves with an error value, is answered with \<open>success = true\<close> and let
  through.
\<close>

theorem settlement_failure_kinds_counterexample:
  "error (fst (verifyAndSettlePayment timing_out_ledger 2000
                (header_for ''1000'' ''dHJhbnNmZXI='')))
     = Some ''Transaction was not confirmed in 30.00 seconds''
   \<and> error (fst (verifyAndSettlePayment timing_out_ledger 2000
                (header_for ''1000'' ''dHJhbnNmZXI=''))) \<noteq> Some ''SettlementTimeout''
   \<and> error (fst (verifyAndSettlePayment refusing_ledger 2000
                (header_for ''1000'' ''dHJhbnNmZXI='')))
     = Some ''Transaction sending failed: Error: Blockhash not found''
   \<and> error (fst (verifyAndSettlePayment refusing_ledger 2000
                (header_for ''1000'' ''dHJhbnNmZXI=''))) \<noteq> Some ''SettlementRejected''
   \<and> confirmTransaction failing_on_chain_ledger ''5Xj8'' = Inr (Some ''InsufficientFundsForFee'')
   \<and> success (fst (verifyAndSettlePayment failing_on_chain_ledger 2000
                (header_for ''1000'' ''dHJhbnNmZXI='')))
   \<and> granted (fst (paymentRequiredMiddleware shop failing_on_chain_ledger 2000 paid))"
  by (simp add: middleware_defs facilitator_defs verifyTransaction_def timing_out_ledger_def
      refusing_ledger_def failing_on_chain_ledger_def accepting_ledger_def paid_def unpaid_def
      header_for_def token_transfer_def settled_def failed_def)

section \<open>The reference built-ins invert each other\<close>





















section \<open>Header codec, /verify endpoint and verifyPayment: proofs\<close>




text \<open>What \<open>verifyPayment\<close> answers on a transaction the RPC node returns whole: its two
  checks in the order of the source.\<close>

lemma verifyPayment_checks:
  assumes "getTransaction signature
             = Inr (Some \<lparr>meta = Some \<lparr>err = e, postTokenBalances = Some balances\<rparr>\<rparr>)"
  shows "verifyPayment getTransaction signature expectedAmount receiver =
           (if e \<noteq> None then Inl transaction_failed_or_not_found
            else (case find (\<lambda>balance. mint balance = USDC_MINT_ADDRESS) balances of
                    None \<Rightarrow> Inl insufficient_payment_amount
                  | Some tokenTransfer \<Rightarrow>
                      if less_than_expected (uiAmount tokenTransfer) expectedAmount
                      then Inl insufficient_payment_amount
                      else Inr True))"
  using assms by (simp add: verifyPayment_def)

text \<open>
  Claim C2, as amended. Verification stops at its first failing check, but the checks
  and reasons are those of the code. The /verify endpoint decodes the header, then asks
  the verifier once: a header that does not decode is never verified, and the answer
  carries no reason when valid and the one reason \<open>Verification Failed\<close> otherwise.
  \<open>verifyPayment\<close> checks first that the transaction was found and succeeded (else
  "transaction failed or not found", whatever the balances), then that the first USDC
  balance is at least the expected amount (else "insufficient payment amount").
\<close>

theorem verification_first_failure:
  shows "(decodePaymentHeader lib paymentHeader = Inl e
            \<longrightarrow> verify_endpoint lib verifier paymentHeader requirements = Inl e)
       \<and> (decodePaymentHeader lib paymentHeader = Inr payload
            \<longrightarrow> verify_endpoint lib verifier paymentHeader requirements
                = Inr \<lparr>isValid = verifier payload requirements,
                        invalidReason = (if verifier payload requirements then None
                                         else Some ''Verification Failed'')\<rparr>)
       \<and> (getTransaction signature = Inr None
            \<longrightarrow> verifyPayment getTransaction signature expectedAmount receiver
                = Inl transaction_failed_or_not_found)
       \<and> (getTransaction signature
              = Inr (Some \<lparr>meta = Some \<lparr>err = Some failure,
                                        postTokenBalances = Some balances\<rparr>\<rparr>)
            \<longrightarrow> verifyPayment getTransaction signature expectedAmount receiver
                = Inl transaction_failed_or_not_found)
       \<and> (getTransaction signature
              = Inr (Some \<lparr>meta = Some \<lparr>err = None, postTokenBalances = Some balances\<rparr>\<rparr>)
            \<longrightarrow> verifyPayment getTransaction signature expectedAmount receiver
                = (case find (\<lambda>balance. mint balance = USDC_MINT_ADDRESS) balances of
                     None \<Rightarrow> Inl insufficient_payment_amount
                   | Some tokenTransfer \<Rightarrow>
                       if less_than_expected (uiAmount tokenTransfer) expectedAmount
                       then Inl insufficient_payment_amount
                       else Inr True))"
proof -
  have endpoint_failed:
    "decodePaymentHeader lib paymentHeader = Inl e
       \<longrightarrow> verify_endpoint lib verifier paymentHeader requirements = Inl e"
    by (simp add: verify_endpoint_def)
  have endpoint_decoded:
    "decodePaymentHeader lib paymentHeader = Inr payload
       \<longrightarrow> verify_endpoint lib verifier paymentHeader requirements
           = Inr \<lparr>isValid = verifier payload requirements,
                   invalidReason = (if verifier payload requirements then None
                                    else Some ''Verification Failed'')\<rparr>"
    by (simp add: verify_endpoint_def Let_def)
  have not_found:
    "getTransaction signature = Inr None
       \<longrightarrow> verifyPayment getTransaction signature expectedAmount receiver
           = Inl transaction_failed_or_not_found"
    by (simp add: verifyPayment_def)
  show ?thesis
    using endpoint_failed endpoint_decoded not_found
      verifyPayment_checks [of getTransaction signature "Some failure" balances]
      verifyPayment_checks [of getTransaction signature None balances]
    by simp
qed

text \<open>The witness: a header that is no base64 of JSON; a payload whose payment id
  differs from the requirements', under a verifier that compares nothing and rejects;
  a signature the node does not know; a failed transaction that holds a sufficient
  USDC balance; and a successful one with that balance.\<close>

theorem verification_first_failure_witness:
  "decodePaymentHeader node ''%%%'' = Inl SyntaxError
   \<and> verify_endpoint node (\<lambda>payload requirements. False) ''%%%''
       (JObject [(''paymentId'', JString ''b'')]) = Inl SyntaxError
   \<and> decodePaymentHeader node ''eyJwYXltZW50SWQiOiJhIn0=''
     = Inr (JObject [(''paymentId'', JString ''a'')])
   \<and> verify_endpoint node (\<lambda>payload requirements. False) ''eyJwYXltZW50SWQiOiJhIn0=''
       (JObject [(''paymentId'', JString ''b'')])
     = Inr \<lparr>isValid = False, invalidReason = Some ''Verification Failed''\<rparr>
   \<and> verifyPayment (\<lambda>s. Inr None) ''5Xj8'' (1 / 4) ''MERCHANT''
     = Inl transaction_failed_or_not_found
   \<and> verifyPayment
       (\<lambda>s. Inr (Some \<lparr>meta = Some \<lparr>err = Some ''InstructionError'',
          postTokenBalances = Some [\<lparr>mint = USDC_MINT_ADDRESS, owner = ''MERCHANT'',
                                     uiAmount = Some 1\<rparr>]\<rparr>\<rparr>))
       ''5Xj8'' (1 / 4) ''MERCHANT''
     = Inl transaction_failed_or_not_found
   \<and> verifyPayment
       (\<lambda>s. Inr (Some \<lparr>meta = Some \<lparr>err = None,
          postTokenBalances = Some [\<lparr>mint = USDC_MINT_ADDRESS, owner = ''MERCHANT'',
                                     uiAmount = Some 1\<rparr>]\<rparr>\<rparr>))
       ''5Xj8'' (1 / 4) ''MERCHANT''
     = Inr True"
proof -
  let ?balances = "[\<lparr>mint = USDC_MINT_ADDRESS, owner = ''MERCHANT'', uiAmount = Some 1\<rparr>]"
  have bad: "decodePaymentHeader node ''%%%'' = Inl SyntaxError"
    by (simp add: decodePaymentHeader_def run_builtins)
  have d: "decodePaymentHeader node ''eyJwYXltZW50SWQiOiJhIn0=''
             = Inr (JObject [(''paymentId'', JString ''a'')])"
    by (simp add: decodePaymentHeader_def run_builtins)
  note undecoded = verification_first_failure
      [where lib = node and paymentHeader = "''%%%''" and e = SyntaxError
        and verifier = "\<lambda>payload requirements. False"
        and requirements = "JObject [(''paymentId'', JString ''b'')]"
        and getTransaction = "\<lambda>s. Inr None"
        and signature = "''5Xj8''" and expectedAmount = "1 / 4" and receiver = "''MERCHANT''"]
  note failed_tx = verification_first_failure
      [where lib = node and paymentHeader = "''eyJwYXltZW50SWQiOiJhIn0=''"
        and payload = "JObject [(''paymentId'', JString ''a'')]"
        and verifier = "\<lambda>payload requirements. False"
        and requirements = "JObject [(''paymentId'', JString ''b'')]"
        and getTransaction = "\<lambda>s. Inr (Some \<lparr>meta = Some \<lparr>err = Some ''InstructionError'',
          postTokenBalances = Some ?balances\<rparr>\<rparr>)"
        and signature = "''5Xj8''" and failure = "''InstructionError''"
        and balances = ?balances
        and expectedAmount = "1 / 4" and receiver = "''MERCHANT''"]
  note good_tx = verification_first_failure
      [where lib = node and paymentHeader = "''eyJwYXltZW50SWQiOiJhIn0=''"
        and verifier = "\<lambda>payload requirements. False"
        and getTransaction = "\<lambda>s. Inr (Some \<lparr>meta = Some \<lparr>err = None,
          postTokenBalances = Some ?balances\<rparr>\<rparr>)"
        and signature = "''5Xj8''" and balances = ?balances
        and expectedAmount = "1 / 4" and receiver = "''MERCHANT''"]
  show ?thesis
    using bad d undecoded failed_tx good_tx
    by (simp add: less_than_expected_def)
qed

text \<open>
  Claim C2 as stated fails on the code. The payload carries payment id \<open>a\<close>, the
  requirements payment id \<open>b\<close>. Whether the verifier rejects or accepts the pair, the
  endpoint never answers with the reason MismatchedPaymentId: a rejection carries the
  reason \<open>Verification Failed\<close>, which is the reason of every rejection.
\<close>

theorem verify_reason_counterexample:
  "verify_endpoint node (\<lambda>payload requirements. False) ''eyJwYXltZW50SWQiOiJhIn0=''
       (JObject [(''paymentId'', JString ''b'')])
     = Inr \<lparr>isValid = False, invalidReason = Some ''Verification Failed''\<rparr>
   \<and> verify_endpoint node (\<lambda>payload requirements. True) ''eyJwYXltZW50SWQiOiJhIn0=''
       (JObject [(''paymentId'', JString ''b'')])
     = Inr \<lparr>isValid = True, invalidReason = None\<rparr>
   \<and> Some ''Verification Failed'' \<noteq> Some ''MismatchedPaymentId''"
  by (simp add: verify_endpoint_def decodePaymentHeader_def run_builtins)

text \<open>The receiver is a parameter that \<open>verifyPayment\<close> never reads.\<close>

lemma verifyPayment_ignores_receiver:
  "verifyPayment getTransaction signature expectedAmount receiver
     = verifyPayment getTransaction signature expectedAmount receiver'"
  by (simp add: verifyPayment_def)

text \<open>
  Claim C3 fails on \<open>verifyPayment\<close> where the payment is misdirected. The merchant
  expects 0.25 USDC. The transaction moves the USDC to another owner: its only USDC
  balance after execution belongs to \<open>SOMEONE_ELSE\<close>. The verification passes for the
  merchant as receiver. The amount floor itself holds on the balance the code reads:
  0.20 USDC is refused, and so is a transaction without any USDC balance.
\<close>

theorem misdirected_payment_verified:
  "verifyPayment
     (confirmed_with [\<lparr>mint = USDC_MINT_ADDRESS, owner = ''SOMEONE_ELSE'', uiAmount = Some (1 / 4)\<rparr>])
     ''5Xj8'' (1 / 4) ''MERCHANT'' = Inr True
   \<and> verifyPayment
     (confirmed_with [\<lparr>mint = USDC_MINT_ADDRESS, owner = ''MERCHANT'', uiAmount = Some (1 / 5)\<rparr>])
     ''5Xj8'' (1 / 4) ''MERCHANT'' = Inl insufficient_payment_amount
   \<and> verifyPayment
     (confirmed_with [\<lparr>mint = ''So11111111111111111111111111111111111111112'',
                       owner = ''MERCHANT'', uiAmount = Some 1\<rparr>])
     ''5Xj8'' (1 / 4) ''MERCHANT'' = Inl insufficient_payment_amount"
  by (simp add: verifyPayment_def confirmed_with_def less_than_expected_def
      USDC_MINT_ADDRESS_def)

section \<open>Client spending cap: proofs\<close>

text \<open>The cap the client keeps: 1 when the options have no \<open>maxPaymentAmount\<close> key, the
  given value when they have one, and \<open>undefined\<close> when the key is there with the value
  \<open>undefined\<close>, although the entry written for it was the default 1.\<close>

lemma stored_cap:
  "stored_maxPaymentAmount (SolPay402Client (options\<lparr>maxPaymentAmount := Missing\<rparr>)) = Some 1"
  "stored_maxPaymentAmount (SolPay402Client (options\<lparr>maxPaymentAmount := Given m\<rparr>)) = Some m"
  "stored_maxPaymentAmount (SolPay402Client (options\<lparr>maxPaymentAmount := Undefined\<rparr>)) = None"
  by (simp_all add: SolPay402Client_def spread_over_def or_default_key_def)

text \<open>
  Where the cap works. The options have no \<open>maxPaymentAmount\<close> (the cap is the default
  1) or have a number there (the cap is that number): when the first response has
  status 402 and an X-PAYMENT-REQUEST header that parses to a payment request whose
  amount is greater than the cap, the fetch function throws ("Payment failed: Payment
  amount ... exceeds maximum allowed ..."), and the original request is all it has done:
  no approval asked, no blockhash fetched, nothing signed, no second request.
\<close>

lemma cap_blocks_payment:
  assumes "originalFetch env None = Inr response"
    and "status response = 402"
    and "X_PAYMENT_REQUEST response = Some header"
    and "header \<noteq> []"
    and "JSON_parse_request env header = Some paymentRequest"
    and "maxPaymentAmount options = Missing \<and> cap = 1 \<or> maxPaymentAmount options = Given cap"
    and "cap < pr_amount paymentRequest"
  shows "createFetchWithPayment (SolPay402Client options) env
           = (Inl (PaymentFailed (AmountExceedsMaximum (pr_amount paymentRequest) (Some cap))),
              [Fetched None])"
proof -
  from assms(6) have "stored_maxPaymentAmount (SolPay402Client options) = Some cap"
    by (auto simp: SolPay402Client_def spread_over_def or_default_key_def)
  with assms show ?thesis
    by (simp add: createFetchWithPayment_def exceeds_def)
qed

lemma default_cap_blocks_five:
  "createFetchWithPayment (SolPay402Client no_options) asks_five
     = (Inl (PaymentFailed (AmountExceedsMaximum 5 (Some 1))), [Fetched None])"
  using cap_blocks_payment [where env = asks_five and options = no_options and cap = 1
      and header = "''five''" and paymentRequest = five_usdc]
  by (simp add: asks_five_def no_options_def five_usdc_def)

text \<open>For comparison, the same server and a client whose cap admits the amount: the
  payment is made and the request retried with the X-PAYMENT header.\<close>

lemma payment_within_cap:
  "createFetchWithPayment
     (SolPay402Client (no_options\<lparr>maxPaymentAmount := Given 10\<rparr>)) asks_five
     = (Inr \<lparr>status = 200, X_PAYMENT_REQUEST = None, X_PAYMENT_RESPONSE = None\<rparr>,
        [Fetched None, ApprovalRequested, BlockhashRequested, TransactionSigned,
         MessageSigned, Fetched (Some ''X-PAYMENT for 1000'')])"
  by (simp add: createFetchWithPayment_def SolPay402Client_def spread_over_def
      or_default_key_def no_options_def asks_five_def five_usdc_def exceeds_def
      requestUserApproval_def createPayment_def createPaymentTransaction_def
      createPaymentHeader_def)

text \<open>An options object that has the key \<open>maxPaymentAmount\<close> with the value
  \<open>undefined\<close> leaves the client without cap, whatever the amount asked.\<close>

lemma undefined_cap_is_no_cap:
  "\<not> exceeds amount (stored_maxPaymentAmount
         (SolPay402Client (options\<lparr>maxPaymentAmount := Undefined\<rparr>)))"
  by (simp add: exceeds_def SolPay402Client_def spread_over_def)

text \<open>
  Claim C9 fails on the client built with the options \<open>{maxPaymentAmount: undefined}\<close>.
  The entry the constructor writes for the cap is the default,
  \<open>options.maxPaymentAmount || 1 = 1\<close>, and the spread that follows replaces it by
  \<open>undefined\<close>. The server asks for 5, which is more than the default cap of 1; the
  comparison \<open>5 > undefined\<close> is false, and the client asks for approval, signs the
  payment and retries the request with the X-PAYMENT header.
\<close>

theorem undefined_cap_pays_above_default:
  "or_default_key (maxPaymentAmount (no_options\<lparr>maxPaymentAmount := Undefined\<rparr>)) 0 1
     = (1 :: rat)
   \<and> stored_maxPaymentAmount (SolPay402Client (no_options\<lparr>maxPaymentAmount := Undefined\<rparr>))
       = None
   \<and> originalFetch asks_five None
       = Inr \<lparr>status = 402, X_PAYMENT_REQUEST = Some ''five'', X_PAYMENT_RESPONSE = None\<rparr>
   \<and> JSON_parse_request asks_five ''five'' = Some five_usdc
   \<and> pr_amount five_usdc = 5
   \<and> createFetchWithPayment
       (SolPay402Client (no_options\<lparr>maxPaymentAmount := Undefined\<rparr>)) asks_five
       = (Inr \<lparr>status = 200, X_PAYMENT_REQUEST = None, X_PAYMENT_RESPONSE = None\<rparr>,
          [Fetched None, ApprovalRequested, BlockhashRequested, TransactionSigned,
           MessageSigned, Fetched (Some ''X-PAYMENT for 1000'')])"
  by (simp add: createFetchWithPayment_def SolPay402Client_def spread_over_def
      or_default_key_def no_options_def asks_five_def five_usdc_def exceeds_def
      requestUserApproval_def createPayment_def createPaymentTransaction_def
      createPaymentHeader_def)

section \<open>Pagination: proofs\<close>












text \<open>Within one handler the test is the one of the render: \<open>k\<close> calls of \<open>nextPage\<close> add
  \<open>k\<close> when the render has seen a next page, and nothing otherwise.\<close>

lemma nextPage_repeated:
  "page (handler (replicate k NextPage) s)
     = (if hasNextPage s then page s + int k else page s)"
proof -
  have "page (fold (perform r) (replicate k NextPage) s')
          = (if seen_hasNextPage r then page s' + int k else page s')" for r s'
    by (induction k arbitrary: s') (simp_all add: nextPage_def)
  then show ?thesis by (simp add: handler_def render_def)
qed




end
